theory Spec2Isabelle
  imports Complex_Main "HOL-Library.AList" "HOL-Library.List_Lexorder" "HOL-Library.Multiset"
begin

section \<open>Strings, errors and JSON values\<close>

text \<open>
  A Python \<open>str\<close> is a sequence of Unicode code points; a code point is a natural
  number. \<open>str\<close> embeds an ASCII literal.
\<close>

type_synonym pystr = "nat list"

definition str :: "string \<Rightarrow> pystr" where
  "str cs = map of_char cs"

text \<open>
  The code points for which \<open>str.isspace\<close> holds, which are the ones \<open>str.strip()\<close>
  removes: U+0009..U+000D, U+001C..U+0020, U+0085, U+00A0, U+1680, U+2000..U+200A,
  U+2028, U+2029, U+202F, U+205F, U+3000.
\<close>

definition isspace :: "nat \<Rightarrow> bool" where
  "isspace c \<longleftrightarrow>
     (9 \<le> c \<and> c \<le> 13) \<or> (28 \<le> c \<and> c \<le> 32) \<or> c = 133 \<or> c = 160 \<or> c = 5760 \<or>
     (8192 \<le> c \<and> c \<le> 8202) \<or> c = 8232 \<or> c = 8233 \<or> c = 8239 \<or> c = 8287 \<or> c = 12288"

definition strip :: "pystr \<Rightarrow> pystr" where
  "strip s = rev (dropWhile isspace (rev (dropWhile isspace s)))"

text \<open>\<open>sep.join(parts)\<close>\<close>

fun join :: "pystr \<Rightarrow> pystr list \<Rightarrow> pystr" where
  "join sep [] = []"
| "join sep [x] = x"
| "join sep (x # y # ys) = x @ sep @ join sep (y # ys)"

text \<open>
  The exceptions that occur in the program. \<open>LibraryError\<close> stands for whatever an
  external library (PyMuPDF, pdf2image, pytesseract, python-docx, ollama) raises.
\<close>

datatype error =
    KeyError
  | TypeError
  | FileNotFoundError
  | OSError
  | JSONDecodeError
  | LibraryError

text \<open>
  What \<open>json.loads\<close> returns. \<open>JNum\<close> carries the value of a finite number (Python
  compares \<open>int\<close> and \<open>float\<close> by value); the literal \<open>NaN\<close>, which \<open>json.loads\<close> also
  accepts, is not represented. A Python \<open>dict\<close> is an association list: a key is looked up
  with \<open>map_of\<close> and stored with \<open>AList.update\<close>, which overwrites in place or appends.
\<close>

datatype json =
    JNull
  | JBool bool
  | JNum real
  | JStr pystr
  | JList "json list"
  | JDict "(pystr \<times> json) list"

type_synonym dict = "(pystr \<times> json) list"

text \<open>Python's truth value of a JSON value (\<open>not v\<close> is its negation).\<close>

fun truthy :: "json \<Rightarrow> bool" where
  "truthy JNull = False"
| "truthy (JBool b) = b"
| "truthy (JNum x) = (x \<noteq> 0)"
| "truthy (JStr s) = (s \<noteq> [])"
| "truthy (JList xs) = (xs \<noteq> [])"
| "truthy (JDict kvs) = (kvs \<noteq> [])"

text \<open>\<open>d.get(k)\<close> used as a condition: a missing key gives \<open>None\<close>, which is false.\<close>

definition get_truthy :: "dict \<Rightarrow> pystr \<Rightarrow> bool" where
  "get_truthy d k = (case map_of d k of None \<Rightarrow> False | Some v \<Rightarrow> truthy v)"

text \<open>\<open>d.get(k, dflt)\<close>\<close>

definition dict_get :: "dict \<Rightarrow> pystr \<Rightarrow> json \<Rightarrow> json" where
  "dict_get d k dflt = (case map_of d k of None \<Rightarrow> dflt | Some v \<Rightarrow> v)"

text \<open>\<open>{**a, **b}\<close>: the items of \<open>a\<close>, then each item of \<open>b\<close> stored in turn.\<close>

definition dict_merge :: "dict \<Rightarrow> dict \<Rightarrow> dict" where
  "dict_merge a b = fold (\<lambda>(k, v). AList.update k v) b a"

text \<open>\<open>k in d\<close>\<close>

definition has_key :: "pystr \<Rightarrow> dict \<Rightarrow> bool" where
  "has_key k d \<longleftrightarrow> map_of d k \<noteq> None"

text \<open>
  \<open>s.find(c)\<close> and \<open>s.rfind(c)\<close> for a one-character needle; \<open>None\<close> is Python's \<open>-1\<close>.
\<close>

definition find_char :: "nat \<Rightarrow> pystr \<Rightarrow> nat option" where
  "find_char c s =
     (if c \<in> set s then Some (length (takeWhile (\<lambda>x. x \<noteq> c) s)) else None)"

definition rfind_char :: "nat \<Rightarrow> pystr \<Rightarrow> nat option" where
  "rfind_char c s =
     (if c \<in> set s then Some (length s - Suc (length (takeWhile (\<lambda>x. x \<noteq> c) (rev s))))
      else None)"

text \<open>
  The span the three LLM functions hand to \<open>json.loads\<close>: from the first \<open>{\<close> (code point 123)
  to the last \<open>}\<close> (125), when both exist and \<open>e > s\<close>; the slice is \<open>txt[s:e+1]\<close>.
\<close>

definition json_span :: "pystr \<Rightarrow> pystr option" where
  "json_span txt =
     (case find_char 123 txt of
        None \<Rightarrow> None
      | Some s \<Rightarrow>
          (case rfind_char 125 txt of
             None \<Rightarrow> None
           | Some e \<Rightarrow> if s < e then Some (take (Suc e - s) (drop s txt)) else None))"

text \<open>\<open>str.splitlines()\<close>: the first argument is the line read so far.\<close>

definition is_linebreak :: "nat \<Rightarrow> bool" where
  "is_linebreak c \<longleftrightarrow>
     (10 \<le> c \<and> c \<le> 13) \<or> (28 \<le> c \<and> c \<le> 30) \<or> c = 133 \<or> c = 8232 \<or> c = 8233"

fun splitlines_from :: "pystr \<Rightarrow> pystr \<Rightarrow> pystr list" where
  "splitlines_from cur [] = (if cur = [] then [] else [cur])"
| "splitlines_from cur [c] = (if is_linebreak c then [cur] else [cur @ [c]])"
| "splitlines_from cur (c # d # cs) =
     (if c = 13 \<and> d = 10 then cur # splitlines_from [] cs
      else if is_linebreak c then cur # splitlines_from [] (d # cs)
      else splitlines_from (cur @ [c]) (d # cs))"

definition splitlines :: "pystr \<Rightarrow> pystr list" where
  "splitlines s = splitlines_from [] s"

text \<open>\<open>str.split()\<close> with no argument: the maximal runs of characters that are not whitespace.\<close>

fun split_from :: "pystr \<Rightarrow> pystr \<Rightarrow> pystr list" where
  "split_from cur [] = (if cur = [] then [] else [cur])"
| "split_from cur (c # cs) =
     (if isspace c then (if cur = [] then [] else [cur]) @ split_from [] cs
      else split_from (cur @ [c]) cs)"

definition split :: "pystr \<Rightarrow> pystr list" where
  "split s = split_from [] s"

text \<open>
  Text-mode files. \<open>read_text\<close> opens the file with universal newlines: \<open>\r\n\<close> and a lone
  \<open>\r\<close> (code point 13) are returned as \<open>\n\<close> (10). \<open>write_text\<close> writes \<open>os.linesep\<close> for each
  \<open>\n\<close> and encodes with the strict UTF-8 codec, which raises \<open>UnicodeEncodeError\<close> on a
  surrogate (U+D800..U+DFFF).
\<close>

fun universal_newlines :: "pystr \<Rightarrow> pystr" where
  "universal_newlines [] = []"
| "universal_newlines [c] = [if c = 13 then 10 else c]"
| "universal_newlines (c # d # cs) =
     (if c = 13 \<and> d = 10 then 10 # universal_newlines cs
      else if c = 13 then 10 # universal_newlines (d # cs)
      else c # universal_newlines (d # cs))"

datatype platform = Posix | Windows

definition linesep :: "platform \<Rightarrow> pystr" where
  "linesep pf = (case pf of Posix \<Rightarrow> [10] | Windows \<Rightarrow> [13, 10])"

definition write_newlines :: "platform \<Rightarrow> pystr \<Rightarrow> pystr" where
  "write_newlines pf s = concat (map (\<lambda>c. if c = 10 then linesep pf else [c]) s)"

definition encodable :: "pystr \<Rightarrow> bool" where
  "encodable s \<longleftrightarrow> list_all (\<lambda>c. c < 55296 \<or> 57343 < c) s"


section \<open>The external collaborators\<close>

datatype encoding = Utf8 | Latin1

text \<open>The two patterns of \<open>extract_contacts\<close>.\<close>

datatype pattern = EmailPattern | PhonePattern

text \<open>
  A prompt is the template of the function that builds it together with the values
  interpolated into it: the hint emails, the hint phones and the first 8000 characters of
  the CV; the first 4000 characters of the job description; the candidate and job records.
\<close>

datatype prompt =
    CvPrompt "pystr list" "pystr list" pystr
  | JobPrompt pystr
  | ScorePrompt dict dict

text \<open>
  The libraries and services the program calls are parameters of the model; each fallible
  call returns a sum, \<open>Inl\<close> the exception.
  \<^item> \<open>resolve\<close>, \<open>st_mtime\<close>, \<open>suffix_lower\<close>: \<open>p.resolve()\<close>, \<open>p.stat().st_mtime\<close> (which
    raises when the file is absent) and \<open>p.suffix.lower()\<close> of pathlib; \<open>float_str\<close> is the
    text an f-string gives a float, \<open>md5_hexdigest\<close> is \<open>hashlib.md5(key.encode()).hexdigest()\<close>.
  \<^item> \<open>fitz_pages p\<close>: \<open>fitz.open\<close> on the file and, page by page, \<open>get_text("text")\<close>;
    \<open>Inl\<close> when opening raises, and \<open>Inl\<close> at a page when loading or reading that page raises.
  \<^item> \<open>convert_from_path p r\<close>: pdf2image at 250 dpi; \<open>r = Some (first, last)\<close> are the
    1-based \<open>first_page\<close> and \<open>last_page\<close>, \<open>r = None\<close> is the call without a range.
  \<^item> \<open>image_to_string\<close>: pytesseract on one image.
  \<^item> \<open>docx_paragraphs p\<close>: the paragraph texts of \<open>Document(str(p))\<close>.
  \<^item> \<open>read_bytes\<close>: the bytes of a file, or the exception that opening or reading raises;
    \<open>decode\<close>: the code points they decode to with \<open>errors="ignore"\<close>, which never raises.
  \<^item> \<open>re_findall\<close>: \<open>re.findall\<close> for the given pattern, the matches from left to right;
    \<open>alpha\<close>: the code points that \<open>str.isalpha\<close> accepts.
  \<^item> \<open>ollama_chat\<close>: \<open>response["message"]["content"]\<close> of \<open>ollama.chat\<close> for the prompt, or
    the exception raised by the call or by reading the response.
  \<^item> \<open>json_loads\<close>: \<open>json.loads\<close> on a span that starts with \<open>{\<close>: a \<open>dict\<close>, or an exception.
  \<^item> \<open>can_write\<close>: whether a cache path can be opened for writing; \<open>can_unlink\<close>: whether
    \<open>unlink\<close> of a source file succeeds; \<open>platform\<close>: the operating system, for \<open>os.linesep\<close>.
\<close>

record 'img env =
  resolve :: "pystr \<Rightarrow> pystr"
  st_mtime :: "pystr \<Rightarrow> error + real"
  float_str :: "real \<Rightarrow> pystr"
  md5_hexdigest :: "pystr \<Rightarrow> pystr"
  suffix_lower :: "pystr \<Rightarrow> pystr"
  fitz_pages :: "pystr \<Rightarrow> error + (error + pystr) list"
  convert_from_path :: "pystr \<Rightarrow> (nat \<times> nat) option \<Rightarrow> error + 'img list"
  image_to_string :: "'img \<Rightarrow> error + pystr"
  docx_paragraphs :: "pystr \<Rightarrow> error + pystr list"
  read_bytes :: "pystr \<Rightarrow> error + nat list"
  decode :: "encoding \<Rightarrow> nat list \<Rightarrow> pystr"
  re_findall :: "pattern \<Rightarrow> pystr \<Rightarrow> pystr list"
  alpha :: "nat \<Rightarrow> bool"
  ollama_chat :: "prompt \<Rightarrow> error + pystr"
  json_loads :: "pystr \<Rightarrow> error + dict"
  can_write :: "pystr \<Rightarrow> bool"
  can_unlink :: "pystr \<Rightarrow> bool"
  platform :: platform

text \<open>
  The state the program changes: the cache directory (for each cache file, the code points
  its bytes decode to; the program alone writes these files, in UTF-8), the paths in
  \<open>CV_FOLDER\<close> as \<open>glob\<close> lists them, and the global \<open>latest_results\<close>.
\<close>

record world =
  cache :: "pystr \<rightharpoonup> pystr"
  cvs :: "pystr list"
  latest_results :: "dict list"

text \<open>The calls to the rasterizer and to the OCR engine, in the order they are made.\<close>

datatype 'img call = Rasterize "(nat \<times> nat) option" | Ocr 'img

section \<open>Text extraction\<close>

text \<open>\<open>_cache_path\<close>\<close>

definition cache_path :: "'img env \<Rightarrow> pystr \<Rightarrow> error + pystr" where
  "cache_path env p =
     (case st_mtime env p of
        Inl e \<Rightarrow> Inl e
      | Inr m \<Rightarrow>
          Inr (str ''cache/'' @ md5_hexdigest env (resolve env p @ str '':'' @ float_str env m)
               @ str ''.txt''))"

subsection \<open>extract_text_pdf\<close>

text \<open>
  The loop over the pages: \<open>i\<close> is the index of the next page, \<open>tp\<close> is \<open>text_parts\<close>,
  \<open>pw\<close> is \<open>pages_without_text\<close>. The third component of the result is False when a page
  raised: the lists then hold what was appended before.
\<close>

fun scan_pages ::
  "(error + pystr) list \<Rightarrow> nat \<Rightarrow> pystr list \<Rightarrow> nat list \<Rightarrow> pystr list \<times> nat list \<times> bool" where
  "scan_pages [] i tp pw = (tp, pw, True)"
| "scan_pages (Inl e # ps) i tp pw = (tp, pw, False)"
| "scan_pages (Inr t # ps) i tp pw =
     (if t \<noteq> [] \<and> strip t \<noteq> []
      then scan_pages ps (Suc i) (tp @ [t]) pw
      else scan_pages ps (Suc i) tp (pw @ [i]))"

text \<open>
  The OCR loop of the ranged branch: each call is inside its own \<open>try\<close>, a page whose OCR
  raises is skipped.
\<close>

fun ocr_images_guarded :: "'img env \<Rightarrow> 'img list \<Rightarrow> pystr list \<Rightarrow> pystr list" where
  "ocr_images_guarded env [] tp = tp"
| "ocr_images_guarded env (im # ims) tp =
     (case image_to_string env im of
        Inr t \<Rightarrow> ocr_images_guarded env ims (tp @ [t])
      | Inl e \<Rightarrow> ocr_images_guarded env ims tp)"

text \<open>
  The OCR loop of the fallback branch: the calls are not guarded one by one, the first
  exception leaves the loop (and is swallowed by the enclosing \<open>except\<close>). The second
  component is the list of images OCR was called on.
\<close>

fun ocr_images_unguarded ::
  "'img env \<Rightarrow> 'img list \<Rightarrow> pystr list \<Rightarrow> pystr list \<times> 'img list" where
  "ocr_images_unguarded env [] tp = (tp, [])"
| "ocr_images_unguarded env (im # ims) tp =
     (case image_to_string env im of
        Inr t \<Rightarrow> (let (tp', seen) = ocr_images_unguarded env ims (tp @ [t]) in (tp', im # seen))
      | Inl e \<Rightarrow> (tp, [im]))"

text \<open>The \<open>except\<close> branch: rasterize the whole document and OCR every image.\<close>

definition pdf_fallback ::
  "'img env \<Rightarrow> pystr \<Rightarrow> pystr list \<Rightarrow> pystr list \<times> 'img call list" where
  "pdf_fallback env pdf_path tp =
     (case convert_from_path env pdf_path None of
        Inl e \<Rightarrow> (tp, [Rasterize None])
      | Inr images \<Rightarrow>
          (let (tp', seen) = ocr_images_unguarded env images tp
           in (tp', Rasterize None # map Ocr seen)))"

text \<open>
  The body of \<open>extract_text_pdf\<close> up to the final join: the value of \<open>text_parts\<close> at the
  \<open>return\<close>, and the calls made to the rasterizer and the OCR engine.
\<close>

definition pdf_text_parts ::
  "'img env \<Rightarrow> pystr \<Rightarrow> pystr list \<times> 'img call list" where
  "pdf_text_parts env pdf_path =
     (case fitz_pages env pdf_path of
        Inl e \<Rightarrow> pdf_fallback env pdf_path []
      | Inr pages \<Rightarrow>
          (case scan_pages pages 0 [] [] of
             (tp, pw, False) \<Rightarrow> pdf_fallback env pdf_path tp
           | (tp, pw, True) \<Rightarrow>
               (if pw \<noteq> [] then
                  (let r = Some (Min (set pw) + 1, Max (set pw) + 1) in
                   case convert_from_path env pdf_path r of
                     Inl e \<Rightarrow>
                       (let (tp', calls) = pdf_fallback env pdf_path tp
                        in (tp', Rasterize r # calls))
                   | Inr images \<Rightarrow>
                       (ocr_images_guarded env images tp, Rasterize r # map Ocr images))
                else (tp, []))))"

definition extract_text_pdf :: "'img env \<Rightarrow> pystr \<Rightarrow> pystr" where
  "extract_text_pdf env pdf_path = strip (join (str ''\<newline>'') (fst (pdf_text_parts env pdf_path)))"

definition pdf_calls :: "'img env \<Rightarrow> pystr \<Rightarrow> 'img call list" where
  "pdf_calls env pdf_path = snd (pdf_text_parts env pdf_path)"

subsection \<open>extract_text_docx and extract_text_plain\<close>

definition extract_text_docx :: "'img env \<Rightarrow> pystr \<Rightarrow> pystr" where
  "extract_text_docx env path =
     (case docx_paragraphs env path of
        Inl e \<Rightarrow> []
      | Inr paragraphs \<Rightarrow> strip (join (str ''\<newline>'') paragraphs))"

text \<open>\<open>path.read_text(encoding=enc, errors="ignore")\<close>\<close>

definition read_text :: "'img env \<Rightarrow> encoding \<Rightarrow> pystr \<Rightarrow> error + pystr" where
  "read_text env enc path =
     (case read_bytes env path of
        Inl e \<Rightarrow> Inl e
      | Inr bs \<Rightarrow> Inr (universal_newlines (decode env enc bs)))"

text \<open>The \<open>except\<close> branch is not guarded: what the second \<open>read_text\<close> raises propagates.\<close>

definition extract_text_plain :: "'img env \<Rightarrow> pystr \<Rightarrow> error + pystr" where
  "extract_text_plain env path =
     (case read_text env Utf8 path of
        Inr t \<Rightarrow> Inr t
      | Inl e \<Rightarrow> read_text env Latin1 path)"

subsection \<open>extract_text\<close>

text \<open>The dispatch on the extension.\<close>

definition extract_by_suffix :: "'img env \<Rightarrow> pystr \<Rightarrow> error + pystr" where
  "extract_by_suffix env file_path =
     (let ext = suffix_lower env file_path in
      if ext = str ''.pdf'' then Inr (extract_text_pdf env file_path)
      else if ext = str ''.docx'' then Inr (extract_text_docx env file_path)
      else if ext = str ''.txt'' then extract_text_plain env file_path
      else Inr [])"

text \<open>
  \<open>try: cp.write_text(text, encoding="utf-8") except: pass\<close>. When the file cannot be opened
  nothing changes. Otherwise \<open>open\<close> creates or truncates the file before the text is
  encoded: a text that cannot be encoded leaves an empty cache file behind.
\<close>

definition cache_write :: "'img env \<Rightarrow> pystr \<Rightarrow> pystr \<Rightarrow> world \<Rightarrow> world" where
  "cache_write env cp text w =
     (if can_write env cp
      then (if encodable text
            then w\<lparr>cache := (cache w)(cp \<mapsto> write_newlines (platform env) text)\<rparr>
            else w\<lparr>cache := (cache w)(cp \<mapsto> [])\<rparr>)
      else w)"

definition extract_text :: "'img env \<Rightarrow> world \<Rightarrow> pystr \<Rightarrow> (error + pystr) \<times> world" where
  "extract_text env w file_path =
     (case cache_path env file_path of
        Inl e \<Rightarrow> (Inl e, w)
      | Inr cp \<Rightarrow>
          (case cache w cp of
             Some content \<Rightarrow> (Inr (universal_newlines content), w)
           | None \<Rightarrow>
               (case extract_by_suffix env file_path of
                  Inl e \<Rightarrow> (Inl e, w)
                | Inr text \<Rightarrow> (Inr text, cache_write env cp text w))))"

section \<open>Contact hints\<close>

definition extract_contacts :: "'img env \<Rightarrow> pystr \<Rightarrow> pystr list \<times> pystr list" where
  "extract_contacts env cv_text =
     (re_findall env EmailPattern cv_text, re_findall env PhonePattern cv_text)"

fun extract_name_lines :: "'img env \<Rightarrow> pystr list \<Rightarrow> pystr \<times> pystr" where
  "extract_name_lines env [] = ([], [])"
| "extract_name_lines env (line # lines) =
     (let words = split (strip line) in
      if 2 \<le> length words \<and> length words \<le> 3
         \<and> list_all (\<lambda>w. w \<noteq> [] \<and> list_all (alpha env) w) words
      then (hd words, join (str '' '') (tl words))
      else extract_name_lines env lines)"

definition extract_name :: "'img env \<Rightarrow> pystr \<Rightarrow> pystr \<times> pystr" where
  "extract_name env cv_text = extract_name_lines env (splitlines cv_text)"

section \<open>The LLM functions\<close>

text \<open>\<open>hints[0] if hints else ""\<close>\<close>

definition first_or_empty :: "pystr list \<Rightarrow> pystr" where
  "first_or_empty hints = (case hints of [] \<Rightarrow> [] | h # _ \<Rightarrow> h)"

text \<open>The record \<open>parse_cv\<close> returns when the call, the span or the parse fails.\<close>

definition cv_fallback :: "pystr \<Rightarrow> pystr \<Rightarrow> pystr list \<Rightarrow> pystr list \<Rightarrow> dict" where
  "cv_fallback first_name last_name emails phones =
     [(str ''first_name'', JStr first_name), (str ''last_name'', JStr last_name),
      (str ''email'', JStr (first_or_empty emails)),
      (str ''phone'', JStr (first_or_empty phones)),
      (str ''skills'', JList []), (str ''years_experience'', JNum 0),
      (str ''companies'', JList []), (str ''languages'', JList []),
      (str ''certifications'', JList []), (str ''education'', JList [])]"

text \<open>The four \<open>if not data.get(..)\<close> statements, in the order of the source.\<close>

definition fill_hints :: "pystr \<Rightarrow> pystr \<Rightarrow> pystr list \<Rightarrow> pystr list \<Rightarrow> dict \<Rightarrow> dict" where
  "fill_hints first_name last_name emails phones data =
     (let d1 = (if \<not> get_truthy data (str ''first_name'')
                then AList.update (str ''first_name'') (JStr first_name) data else data);
          d2 = (if \<not> get_truthy d1 (str ''last_name'')
                then AList.update (str ''last_name'') (JStr last_name) d1 else d1);
          d3 = (if \<not> get_truthy d2 (str ''email'') \<and> emails \<noteq> []
                then AList.update (str ''email'') (JStr (hd emails)) d2 else d2);
          d4 = (if \<not> get_truthy d3 (str ''phone'') \<and> phones \<noteq> []
                then AList.update (str ''phone'') (JStr (hd phones)) d3 else d3)
      in d4)"

definition parse_cv :: "'img env \<Rightarrow> pystr \<Rightarrow> dict" where
  "parse_cv env cv_text =
     (let (emails, phones) = extract_contacts env cv_text;
          (first_name, last_name) = extract_name env cv_text;
          fallback = cv_fallback first_name last_name emails phones
      in case ollama_chat env (CvPrompt emails phones (take 8000 cv_text)) of
           Inl e \<Rightarrow> fallback
         | Inr txt \<Rightarrow>
             (case json_span txt of
                None \<Rightarrow> fallback
              | Some obj \<Rightarrow>
                  (case json_loads env obj of
                     Inl e \<Rightarrow> fallback
                   | Inr data \<Rightarrow> fill_hints first_name last_name emails phones data)))"

definition job_fallback :: dict where
  "job_fallback =
     [(str ''skills_required'', JList []), (str ''years_required'', JNum 0),
      (str ''languages_required'', JList []), (str ''certifications_required'', JList [])]"

definition parse_job :: "'img env \<Rightarrow> pystr \<Rightarrow> dict" where
  "parse_job env job_text =
     (case ollama_chat env (JobPrompt (take 4000 job_text)) of
        Inl e \<Rightarrow> job_fallback
      | Inr txt \<Rightarrow>
          (case json_span txt of
             None \<Rightarrow> job_fallback
           | Some obj \<Rightarrow>
               (case json_loads env obj of Inl e \<Rightarrow> job_fallback | Inr data \<Rightarrow> data)))"

definition score_fallback :: dict where
  "score_fallback = [(str ''score'', JNum 0), (str ''matching_points'', JList [])]"

text \<open>The parsed object is returned as it is: nothing checks that it has a \<open>score\<close>.\<close>

definition score_candidate :: "'img env \<Rightarrow> dict \<Rightarrow> dict \<Rightarrow> dict" where
  "score_candidate env cv_json job_json =
     (case ollama_chat env (ScorePrompt cv_json job_json) of
        Inl e \<Rightarrow> score_fallback
      | Inr txt \<Rightarrow>
          (case json_span txt of
             None \<Rightarrow> score_fallback
           | Some obj \<Rightarrow>
               (case json_loads env obj of Inl e \<Rightarrow> score_fallback | Inr data \<Rightarrow> data)))"

section \<open>process_one\<close>

text \<open>\<open>try: file_path.unlink() except: pass\<close>\<close>

definition unlink :: "'img env \<Rightarrow> pystr \<Rightarrow> world \<Rightarrow> world" where
  "unlink env file_path w =
     (if can_unlink env file_path then w\<lparr>cvs := removeAll file_path (cvs w)\<rparr> else w)"

definition empty_text_result :: dict where
  "empty_text_result = [(str ''error'', JStr (str ''Empty text''))]"

text \<open>
  An exception of \<open>extract_text\<close> leaves \<open>process_one\<close>; the \<open>return\<close> for an empty text comes
  before the \<open>unlink\<close>.
\<close>

definition process_one :: "'img env \<Rightarrow> world \<Rightarrow> pystr \<Rightarrow> dict \<Rightarrow> (error + dict) \<times> world" where
  "process_one env w file_path job_json =
     (case extract_text env w file_path of
        (Inl e, w1) \<Rightarrow> (Inl e, w1)
      | (Inr text, w1) \<Rightarrow>
          (if strip text = [] then (Inr empty_text_result, w1)
           else
             (let cv_data = parse_cv env text;
                  score_data = score_candidate env cv_data job_json
              in (Inr (dict_merge cv_data score_data), unlink env file_path w1))))"

section \<open>The request handlers\<close>

text \<open>
  \<open>results.sort(key=lambda x: x["score"], reverse=True)\<close>. The key is computed for every
  element first, so a record without \<open>score\<close> raises \<open>KeyError\<close>. Numbers and booleans are
  ordered by value, strings by code points; a list of at most one element is never
  compared. In every other case with two or more records a comparison of \<open>None\<close>, of a
  \<open>dict\<close> or across types raises \<open>TypeError\<close>; score columns made of lists only, which Python
  compares element by element, are not modelled and fall in this case too.
  With \<open>reverse=True\<close> the sort stays stable: the list is reversed, sorted and reversed again.
\<close>

fun num_key :: "json \<Rightarrow> real option" where
  "num_key (JNum x) = Some x"
| "num_key (JBool b) = Some (if b then 1 else 0)"
| "num_key v = None"

fun str_key :: "json \<Rightarrow> pystr option" where
  "str_key (JStr s) = Some s"
| "str_key v = None"

definition score_of :: "dict \<Rightarrow> json" where
  "score_of r = dict_get r (str ''score'') JNull"

definition score_num :: "dict \<Rightarrow> real" where
  "score_num r = (case num_key (score_of r) of Some x \<Rightarrow> x | None \<Rightarrow> 0)"

definition score_str :: "dict \<Rightarrow> pystr" where
  "score_str r = (case str_key (score_of r) of Some s \<Rightarrow> s | None \<Rightarrow> [])"


definition sort_reverse :: "('a \<Rightarrow> 'k::linorder) \<Rightarrow> 'a list \<Rightarrow> 'a list" where
  "sort_reverse key xs = rev (sort_key key (rev xs))"

definition sort_by_score :: "dict list \<Rightarrow> error + dict list" where
  "sort_by_score rs =
     (if list_ex (\<lambda>r. \<not> has_key (str ''score'') r) rs then Inl KeyError
      else if list_all (\<lambda>r. num_key (score_of r) \<noteq> None) rs then Inr (sort_reverse score_num rs)
      else if list_all (\<lambda>r. str_key (score_of r) \<noteq> None) rs then Inr (sort_reverse score_str rs)
      else if length rs \<le> 1 then Inr rs
      else Inl TypeError)"

text \<open>
  The worker pool. The tasks are submitted in the order of \<open>files\<close>; \<open>as_completed\<close> yields
  them in the order they finish, which the scheduler decides: \<open>order\<close> lists the indices of
  the tasks in that order. The effects of the tasks on the world are applied in the same order.
\<close>

definition as_completed :: "'a list \<Rightarrow> nat list \<Rightarrow> 'a list" where
  "as_completed futs order = map (\<lambda>i. futs ! i) (filter (\<lambda>i. i < length futs) order)"

fun run_tasks ::
  "'img env \<Rightarrow> dict \<Rightarrow> pystr list \<Rightarrow> world \<Rightarrow> (error + dict) list \<times> world" where
  "run_tasks env job_json [] w = ([], w)"
| "run_tasks env job_json (f # fs) w =
     (let (r, w1) = process_one env w f job_json;
          (rs, w2) = run_tasks env job_json fs w1
      in (r # rs, w2))"

text \<open>\<open>results.append(fut.result())\<close> inside \<open>try\<close>: a task that raised adds nothing.\<close>

fun returned :: "(error + dict) list \<Rightarrow> dict list" where
  "returned [] = []"
| "returned (Inl e # rs) = returned rs"
| "returned (Inr r # rs) = r # returned rs"

definition recognized :: "'img env \<Rightarrow> pystr \<Rightarrow> bool" where
  "recognized env p \<longleftrightarrow>
     suffix_lower env p = str ''.pdf'' \<or> suffix_lower env p = str ''.docx''
     \<or> suffix_lower env p = str ''.txt''"

text \<open>
  \<open>collected\<close> is the list \<open>results\<close> after the loop over \<open>as_completed\<close> and the filter on
  \<open>"error"\<close>, before the sort.
\<close>

definition collected :: "'img env \<Rightarrow> world \<Rightarrow> pystr \<Rightarrow> nat list \<Rightarrow> dict list \<times> world" where
  "collected env w job_desc_text order =
     (let job_json = parse_job env job_desc_text;
          files = filter (recognized env) (cvs w);
          (outcomes, w1) = run_tasks env job_json (as_completed files order) w
      in (filter (\<lambda>r. \<not> has_key (str ''error'') r) (returned outcomes), w1))"

text \<open>
  The POST branch of \<open>index\<close>, from \<open>parse_job\<close> on (the uploads are already saved in
  \<open>CV_FOLDER\<close>). An exception of the sort leaves the handler: \<open>latest_results\<close> is not assigned.
\<close>

definition index :: "'img env \<Rightarrow> world \<Rightarrow> pystr \<Rightarrow> nat list \<Rightarrow> (error + dict list) \<times> world" where
  "index env w job_desc_text order =
     (let (results, w1) = collected env w job_desc_text order in
      case sort_by_score results of
        Inl e \<Rightarrow> (Inl e, w1)
      | Inr sorted_results \<Rightarrow> (Inr sorted_results, w1\<lparr>latest_results := sorted_results\<rparr>))"

text \<open>
  \<open>download_csv\<close>: the rows handed to the \<open>csv\<close> writer, one per element of
  \<open>latest_results\<close>. \<open>"; ".join(v)\<close> iterates its argument: the strings of a list, the
  characters of a string, the keys of a \<open>dict\<close>; anything else raises \<open>TypeError\<close>.
\<close>

fun join_points :: "json \<Rightarrow> error + pystr" where
  "join_points (JList xs) =
     (if list_all (\<lambda>x. str_key x \<noteq> None) xs
      then Inr (join (str ''; '') (map (\<lambda>x. case x of JStr s \<Rightarrow> s | _ \<Rightarrow> []) xs))
      else Inl TypeError)"
| "join_points (JStr s) = Inr (join (str ''; '') (map (\<lambda>c. [c]) s))"
| "join_points (JDict kvs) = Inr (join (str ''; '') (map fst kvs))"
| "join_points v = Inl TypeError"

definition csv_row :: "dict \<Rightarrow> error + json list" where
  "csv_row r =
     (case join_points (dict_get r (str ''matching_points'') (JList [])) of
        Inl e \<Rightarrow> Inl e
      | Inr points \<Rightarrow>
          Inr [dict_get r (str ''first_name'') (JStr []), dict_get r (str ''last_name'') (JStr []),
               dict_get r (str ''email'') (JStr []), dict_get r (str ''phone'') (JStr []),
               dict_get r (str ''score'') (JNum 0), JStr points])"

fun csv_rows :: "dict list \<Rightarrow> error + json list list" where
  "csv_rows [] = Inr []"
| "csv_rows (r # rs) =
     (case csv_row r of
        Inl e \<Rightarrow> Inl e
      | Inr row \<Rightarrow> (case csv_rows rs of Inl e \<Rightarrow> Inl e | Inr rows \<Rightarrow> Inr (row # rows)))"

datatype csv_response = NoResults | Raised error | Rows "json list list"

definition download_csv :: "world \<Rightarrow> csv_response" where
  "download_csv w =
     (if latest_results w = [] then NoResults
      else case csv_rows (latest_results w) of Inl e \<Rightarrow> Raised e | Inr rows \<Rightarrow> Rows rows)"

section \<open>Notions used in the statements\<close>




text \<open>
  The scoring call fails: \<open>ollama.chat\<close> raises, or its answer has no span from \<open>{\<close> to \<open>}\<close>, or
  \<open>json.loads\<close> raises on the span.
\<close>

definition scoring_fails :: "'img env \<Rightarrow> dict \<Rightarrow> dict \<Rightarrow> bool" where
  "scoring_fails env cv_json job_json =
     (case ollama_chat env (ScorePrompt cv_json job_json) of
        Inl e \<Rightarrow> True
      | Inr txt \<Rightarrow>
          (case json_span txt of
             None \<Rightarrow> True
           | Some obj \<Rightarrow> (case json_loads env obj of Inl e \<Rightarrow> True | Inr data \<Rightarrow> False)))"

section \<open>Concrete inputs\<close>

text \<open>
  An environment in which every file is absent and every service is down; the inputs below
  override what they need. Images are numbered by page; the digest is taken injective.
\<close>

definition env0 :: "nat env" where
  "env0 =
     \<lparr>resolve = (\<lambda>p. str ''/srv/app/'' @ p),
      st_mtime = (\<lambda>p. Inr 1700000000),
      float_str = (\<lambda>m. str ''1700000000.0''),
      md5_hexdigest = (\<lambda>k. k),
      suffix_lower = (\<lambda>p. drop (length p - 4) p),
      fitz_pages = (\<lambda>p. Inl LibraryError),
      convert_from_path = (\<lambda>p r. Inl LibraryError),
      image_to_string = (\<lambda>im. Inl LibraryError),
      docx_paragraphs = (\<lambda>p. Inl LibraryError),
      read_bytes = (\<lambda>p. Inl FileNotFoundError),
      decode = (\<lambda>enc bs. bs),
      re_findall = (\<lambda>pat s. []),
      alpha = (\<lambda>c. (65 \<le> c \<and> c \<le> 90) \<or> (97 \<le> c \<and> c \<le> 122)),
      ollama_chat = (\<lambda>pr. Inl LibraryError),
      json_loads = (\<lambda>s. Inl JSONDecodeError),
      can_write = (\<lambda>cp. True),
      can_unlink = (\<lambda>p. True),
      platform = Posix\<rparr>"



text \<open>
  A PDF that PyMuPDF cannot open; its three pages rasterize, and OCR raises on the second.
\<close>

definition env_corrupt_pdf :: "nat env" where
  "env_corrupt_pdf =
     env0\<lparr>convert_from_path :=
            (\<lambda>p r. case r of Some x \<Rightarrow> Inl LibraryError | None \<Rightarrow> Inr [0, 1, 2]),
          image_to_string :=
            (\<lambda>im. if im = 0 then Inr (str ''Ann'') else if im = 2 then Inr (str ''Lee'')
                   else Inl LibraryError)\<rparr>"





text \<open>
  Two CVs with the same hint email and phone. For the first the judge names another
  email; for the second its answer, wrapped in prose, has neither email nor phone.
\<close>

definition cv_one :: pystr where
  "cv_one = str ''Ann Lee ann@lee.org +1 555 0100''"

definition cv_two :: pystr where
  "cv_two = str ''Ann Lee, ann@lee.org, +1 555 0100''"

definition env_hints :: "nat env" where
  \<open>env_hints =
     env0\<lparr>re_findall :=
            (\<lambda>pat s. if s = cv_one \<or> s = cv_two
                      then (case pat of EmailPattern \<Rightarrow> [str ''ann@lee.org'']
                                      | PhonePattern \<Rightarrow> [str ''+1 555 0100''])
                      else []),
          ollama_chat :=
            (\<lambda>pr. case pr of
                     CvPrompt emails phones t \<Rightarrow>
                       if t = cv_one then Inr (str ''{"email": "a.lee@corp.com"}'')
                       else Inr (str ''Here you go: {"skills": []}'')
                   | _ \<Rightarrow> Inl LibraryError),
          json_loads :=
            (\<lambda>s. if s = str ''{"email": "a.lee@corp.com"}''
                   then Inr [(str ''email'', JStr (str ''a.lee@corp.com''))]
                  else if s = str ''{"skills": []}'' then Inr [(str ''skills'', JList [])]
                  else Inl JSONDecodeError)\<rparr>\<close>

text \<open>
  A judge given by tables, and eight text files. \<open>cv_files\<close> gives each file its content,
  \<open>cv_answers\<close> the judge's answer to the CV prompt for a content, \<open>score_answers\<close> its
  answer to the scoring prompt by the candidate's first name (no entry: the call raises),
  \<open>parsed_answers\<close> what \<open>json.loads\<close> returns for these answers. The job prompt raises.
\<close>

definition cv_files :: "(pystr \<times> pystr) list" where
  "cv_files =
     [(str ''ann.txt'', str ''Ann''), (str ''bob.txt'', str ''Bob''), (str ''cy.txt'', str ''Cy''),
      (str ''dee.txt'', str ''Dee''), (str ''eve.txt'', str ''Eve''), (str ''odd.txt'', str ''Odd''),
      (str ''err.txt'', str ''Err''), (str ''blank.txt'', str ''  '')]"

definition cv_answers :: "(pystr \<times> pystr) list" where
  \<open>cv_answers =
     [(str ''Ann'', str ''{"first_name": "Ann"}''), (str ''Bob'', str ''{"first_name": "Bob"}''),
      (str ''Cy'', str ''{"first_name": "Cy"}''), (str ''Dee'', str ''{"first_name": "Dee"}''),
      (str ''Eve'', str ''{"first_name": "Eve"}''), (str ''Odd'', str ''{"first_name": "Odd"}''),
      (str ''Err'', str ''{"error": "not a CV"}'')]\<close>

definition score_answers :: "(json \<times> pystr) list" where
  \<open>score_answers =
     [(JStr (str ''Ann''), str ''{"score": 40}''), (JStr (str ''Bob''), str ''{"score": 90}''),
      (JStr (str ''Cy''), str ''{"score": 90}''), (JStr (str ''Dee''), str ''{"score": 10}''),
      (JStr (str ''Odd''), str ''{}'')]\<close>

definition parsed_answers :: "(pystr \<times> dict) list" where
  \<open>parsed_answers =
     [(str ''{"first_name": "Ann"}'', [(str ''first_name'', JStr (str ''Ann''))]),
      (str ''{"first_name": "Bob"}'', [(str ''first_name'', JStr (str ''Bob''))]),
      (str ''{"first_name": "Cy"}'', [(str ''first_name'', JStr (str ''Cy''))]),
      (str ''{"first_name": "Dee"}'', [(str ''first_name'', JStr (str ''Dee''))]),
      (str ''{"first_name": "Eve"}'', [(str ''first_name'', JStr (str ''Eve''))]),
      (str ''{"first_name": "Odd"}'', [(str ''first_name'', JStr (str ''Odd''))]),
      (str ''{"error": "not a CV"}'', [(str ''error'', JStr (str ''not a CV''))]),
      (str ''{"score": 40}'', [(str ''score'', JNum 40)]),
      (str ''{"score": 90}'', [(str ''score'', JNum 90)]),
      (str ''{"score": 10}'', [(str ''score'', JNum 10)]),
      (str ''{}'', [])]\<close>

definition env_run :: "nat env" where
  "env_run =
     env0\<lparr>suffix_lower := (\<lambda>p. str ''.txt''),
          read_bytes :=
            (\<lambda>p. case map_of cv_files p of Some bs \<Rightarrow> Inr bs | None \<Rightarrow> Inl FileNotFoundError),
          ollama_chat :=
            (\<lambda>pr. case pr of
                     CvPrompt emails phones t \<Rightarrow>
                       (case map_of cv_answers t of Some a \<Rightarrow> Inr a | None \<Rightarrow> Inl LibraryError)
                   | JobPrompt t \<Rightarrow> Inl LibraryError
                   | ScorePrompt cv job \<Rightarrow>
                       (case map_of score_answers (dict_get cv (str ''first_name'') JNull) of
                          Some a \<Rightarrow> Inr a
                        | None \<Rightarrow> Inl LibraryError)),
          json_loads :=
            (\<lambda>s. case map_of parsed_answers s of Some d \<Rightarrow> Inr d | None \<Rightarrow> Inl JSONDecodeError)\<rparr>"

text \<open>A world with the given files in \<open>CV_FOLDER\<close>, an empty cache and no earlier results.\<close>

definition world_of :: "pystr list \<Rightarrow> world" where
  "world_of files = \<lparr>cache = Map.empty, cvs = files, latest_results = []\<rparr>"

text \<open>The record of a candidate with only a first name and a score.\<close>

definition record_of :: "string \<Rightarrow> real \<Rightarrow> dict" where
  "record_of name score =
     [(str ''first_name'', JStr (str name)), (str ''last_name'', JStr []),
      (str ''score'', JNum score)]"


section \<open>Properties of extract_text_pdf\<close>















text \<open>
  Claim C6 at a failing input. PyMuPDF cannot open the document, the fallback rasterizes
  its three pages, OCR raises on the second: the loop ends there, the third page is never
  given to OCR although OCR would read \<open>Lee\<close> on it, and the extracted text is \<open>Ann\<close> alone.
\<close>

theorem fallback_ocr_failure_drops_later_pages:
  "fitz_pages env_corrupt_pdf (str ''cv.pdf'') = Inl LibraryError
   \<and> convert_from_path env_corrupt_pdf (str ''cv.pdf'') None = Inr [0, 1, 2]
   \<and> image_to_string env_corrupt_pdf 2 = Inr (str ''Lee'')
   \<and> pdf_calls env_corrupt_pdf (str ''cv.pdf'') = [Rasterize None, Ocr 0, Ocr 1]
   \<and> extract_text_pdf env_corrupt_pdf (str ''cv.pdf'') = str ''Ann''"
  by (simp add: pdf_calls_def extract_text_pdf_def pdf_text_parts_def pdf_fallback_def
      env_corrupt_pdf_def env0_def strip_def isspace_def str_def)



section \<open>Properties of extract_text_plain and extract_text\<close>

lemma str_eq_iff: "str a = str b \<longleftrightarrow> a = b"
  unfolding str_def by (rule inj_map_eq_map) (simp add: inj_on_def)

text \<open>\<open>extract_text_plain\<close> raises exactly when the file cannot be read.\<close>

lemma extract_text_plain_raises_iff:
  "extract_text_plain env path = Inl e \<longleftrightarrow> read_bytes env path = Inl e"
  by (simp add: extract_text_plain_def read_text_def split: sum.splits)

text \<open>
  Claim C8 at a failing input. The file is absent: the first \<open>read_text\<close> raises, the
  \<open>except\<close> branch reads the same file again, and \<open>FileNotFoundError\<close> leaves the function.
\<close>

theorem extract_text_plain_raises:
  "read_bytes env0 (str ''cv.txt'') = Inl FileNotFoundError
   \<and> extract_text_plain env0 (str ''cv.txt'') = Inl FileNotFoundError"
  by (simp add: extract_text_plain_def read_text_def env0_def)

lemma universal_newlines_Cons:
  "c \<noteq> 13 \<Longrightarrow> universal_newlines (c # cs) = c # universal_newlines cs"
  by (cases cs) simp_all

lemma universal_newlines_id: "13 \<notin> set s \<Longrightarrow> universal_newlines s = s"
  by (induction s) (simp_all add: universal_newlines_Cons)





section \<open>Properties of parse_cv\<close>

lemma get_truthy_update_other:
  "k \<noteq> k' \<Longrightarrow> get_truthy (AList.update k v d) k' = get_truthy d k'"
  by (simp add: get_truthy_def update_conv')

lemma map_of_update_other:
  "k \<noteq> k' \<Longrightarrow> map_of (AList.update k v d) k' = map_of d k'"
  by (simp add: update_conv')

lemma map_of_update_same: "map_of (AList.update k v d) k = Some v"
  by (simp add: update_conv')

lemma key_neq:
  "str ''first_name'' \<noteq> str ''email''" "str ''last_name'' \<noteq> str ''email''"
  "str ''first_name'' \<noteq> str ''phone''" "str ''last_name'' \<noteq> str ''phone''"
  "str ''email'' \<noteq> str ''phone''" "str ''phone'' \<noteq> str ''email''"
  "str ''first_name'' \<noteq> str ''last_name''"
  by (simp_all add: str_eq_iff)

lemma map_of_fill_hints_email:
  "map_of (fill_hints fname lname emails phones data) (str ''email'') =
     (if \<not> get_truthy data (str ''email'') \<and> emails \<noteq> [] then Some (JStr (hd emails))
      else map_of data (str ''email''))"
  unfolding fill_hints_def Let_def
  by (simp add: get_truthy_update_other map_of_update_other map_of_update_same key_neq)

lemma map_of_fill_hints_phone:
  "map_of (fill_hints fname lname emails phones data) (str ''phone'') =
     (if \<not> get_truthy data (str ''phone'') \<and> phones \<noteq> [] then Some (JStr (hd phones))
      else map_of data (str ''phone''))"
  unfolding fill_hints_def Let_def
  by (simp add: get_truthy_update_other map_of_update_other map_of_update_same key_neq)

lemma json_span_email:
  \<open>json_span (str ''{"email": "a.lee@corp.com"}'') =
   Some (str ''{"email": "a.lee@corp.com"}'')\<close>
  by (simp add: json_span_def find_char_def rfind_char_def str_def)

lemma json_span_skills:
  \<open>json_span (str ''Here you go: {"skills": []}'') =
   Some (str ''{"skills": []}'')\<close>
  by (simp add: json_span_def find_char_def rfind_char_def str_def)

text \<open>
  Claim C9. When the judge answers and the span of its answer parses to \<open>data\<close>: an email
  in \<open>data\<close> that is explicit (a value Python counts as true, so not \<open>null\<close> and not the
  empty string) is the email of the result, whatever the hints are; when \<open>data\<close> has no
  email and there is a hint email, the result has the first hint email. The same holds
  for the phone.
\<close>

theorem parse_cv_hint_fallback:
  assumes hints: "extract_contacts env cv_text = (emails, phones)"
    and chat: "ollama_chat env (CvPrompt emails phones (take 8000 cv_text)) = Inr txt"
    and obj: "json_span txt = Some obj"
    and loads: "json_loads env obj = Inr data"
  shows "(\<forall>v. map_of data (str ''email'') = Some v \<and> truthy v \<longrightarrow>
            map_of (parse_cv env cv_text) (str ''email'') = Some v)
       \<and> (map_of data (str ''email'') = None \<and> emails \<noteq> [] \<longrightarrow>
            map_of (parse_cv env cv_text) (str ''email'') = Some (JStr (hd emails)))
       \<and> (\<forall>v. map_of data (str ''phone'') = Some v \<and> truthy v \<longrightarrow>
            map_of (parse_cv env cv_text) (str ''phone'') = Some v)
       \<and> (map_of data (str ''phone'') = None \<and> phones \<noteq> [] \<longrightarrow>
            map_of (parse_cv env cv_text) (str ''phone'') = Some (JStr (hd phones)))"
proof -
  obtain fname lname where name: "extract_name env cv_text = (fname, lname)"
    by (cases "extract_name env cv_text")
  have "parse_cv env cv_text = fill_hints fname lname emails phones data"
    by (simp add: parse_cv_def hints name chat obj loads)
  then show ?thesis
    by (simp add: map_of_fill_hints_email map_of_fill_hints_phone get_truthy_def)
qed

theorem parse_cv_hint_fallback_witness:
  "map_of (parse_cv env_hints cv_one) (str ''email'') = Some (JStr (str ''a.lee@corp.com''))
   \<and> map_of (parse_cv env_hints cv_two) (str ''email'') = Some (JStr (str ''ann@lee.org''))
   \<and> map_of (parse_cv env_hints cv_two) (str ''phone'') = Some (JStr (str ''+1 555 0100''))"
proof -
  let ?emails = "[str ''ann@lee.org'']" and ?phones = "[str ''+1 555 0100'']"
  have c1: "extract_contacts env_hints cv_one = (?emails, ?phones)"
    and c2: "extract_contacts env_hints cv_two = (?emails, ?phones)"
    by (simp_all add: extract_contacts_def env_hints_def env0_def)
  have neq: "cv_two \<noteq> cv_one"
    by (simp add: cv_one_def cv_two_def str_eq_iff)
  have chat1: \<open>ollama_chat env_hints (CvPrompt ?emails ?phones (take 8000 cv_one))
      = Inr (str ''{"email": "a.lee@corp.com"}'')\<close>
    by (simp add: env_hints_def env0_def) (simp add: cv_one_def str_def)
  have chat2: \<open>ollama_chat env_hints (CvPrompt ?emails ?phones (take 8000 cv_two))
      = Inr (str ''Here you go: {"skills": []}'')\<close>
    using neq by (simp add: env_hints_def env0_def) (simp add: cv_one_def cv_two_def str_def)
  have loads1: \<open>json_loads env_hints (str ''{"email": "a.lee@corp.com"}'')
      = Inr [(str ''email'', JStr (str ''a.lee@corp.com''))]\<close>
    by (simp add: env_hints_def env0_def)
  have loads2: \<open>json_loads env_hints (str ''{"skills": []}'') = Inr [(str ''skills'', JList [])]\<close>
    by (simp add: env_hints_def env0_def str_eq_iff)
  have nonempty: "str ''a.lee@corp.com'' \<noteq> []"
    by (simp add: str_def)
  from parse_cv_hint_fallback [OF c1 chat1 json_span_email loads1] nonempty
  have a: "map_of (parse_cv env_hints cv_one) (str ''email'') = Some (JStr (str ''a.lee@corp.com''))"
    by simp
  from parse_cv_hint_fallback [OF c2 chat2 json_span_skills loads2]
  have b: "map_of (parse_cv env_hints cv_two) (str ''email'') = Some (JStr (str ''ann@lee.org''))"
    and c: "map_of (parse_cv env_hints cv_two) (str ''phone'') = Some (JStr (str ''+1 555 0100''))"
    by (simp_all add: str_eq_iff)
  from a b c show ?thesis by simp
qed

section \<open>Properties of the ranking\<close>





lemma sort_by_score_missing:
  "r \<in> set rs \<Longrightarrow> \<not> has_key (str ''score'') r \<Longrightarrow> sort_by_score rs = Inl KeyError"
  by (auto simp: sort_by_score_def list_ex_iff)


section \<open>Properties of process_one and of the worker pool\<close>

lemma extract_text_cvs: "cvs (snd (extract_text env w p)) = cvs w"
  by (simp add: extract_text_def cache_write_def split: sum.splits option.splits)

text \<open>A document whose text is empty is reported as an error and its file stays.\<close>

lemma process_one_empty_text:
  assumes "extract_text env w p = (Inr t, w1)" and "strip t = []"
  shows "process_one env w p job = (Inr empty_text_result, w1)"
    and "cvs (snd (process_one env w p job)) = cvs w"
proof -
  show a: "process_one env w p job = (Inr empty_text_result, w1)"
    using assms by (simp add: process_one_def)
  have "cvs w1 = cvs w"
    using extract_text_cvs [of env w p] assms(1) by simp
  then show "cvs (snd (process_one env w p job)) = cvs w"
    using a by simp
qed

lemma score_candidate_fails:
  "scoring_fails env cv job \<Longrightarrow> score_candidate env cv job = score_fallback"
  by (simp add: scoring_fails_def score_candidate_def split: sum.splits option.splits)








section \<open>Evaluation of the table-driven judge\<close>

lemma str_Nil_iff: "str s = [] \<longleftrightarrow> s = []" "[] = str s \<longleftrightarrow> s = []"
  by (auto simp: str_def)

lemma str_append: "str a @ str b = str (a @ b)"
  by (simp add: str_def)

lemma take_str: "take n (str s) = str (take n s)"
  by (simp add: str_def take_map)

lemma env_run_services:
  "ollama_chat env_run (CvPrompt emails phones t)
     = (case map_of cv_answers t of Some a \<Rightarrow> Inr a | None \<Rightarrow> Inl LibraryError)"
  "ollama_chat env_run (JobPrompt t) = Inl LibraryError"
  "ollama_chat env_run (ScorePrompt cv job)
     = (case map_of score_answers (dict_get cv (str ''first_name'') JNull) of
          Some a \<Rightarrow> Inr a
        | None \<Rightarrow> Inl LibraryError)"
  "json_loads env_run s
     = (case map_of parsed_answers s of Some d \<Rightarrow> Inr d | None \<Rightarrow> Inl JSONDecodeError)"
  "re_findall env_run pat t = []"
  "suffix_lower env_run p = str ''.txt''"
  "can_write env_run cp" "can_unlink env_run p"
  by (simp_all add: env_run_def env0_def)

lemma alpha_env_run: "alpha env_run c \<longleftrightarrow> (65 \<le> c \<and> c \<le> 90) \<or> (97 \<le> c \<and> c \<le> 122)"
  by (simp add: env_run_def env0_def)

lemma cache_path_env_run:
  "cache_path env_run (str s) = Inr (str (''cache//srv/app/'' @ s @ '':1700000000.0.txt''))"
  by (simp add: cache_path_def env_run_def env0_def str_append)

lemma extract_by_suffix_env_run:
  "extract_by_suffix env_run p =
     (case map_of cv_files p of
        Some bs \<Rightarrow> Inr (universal_newlines bs)
      | None \<Rightarrow> Inl FileNotFoundError)"
  by (simp add: extract_by_suffix_def extract_text_plain_def read_text_def env_run_def env0_def
      str_eq_iff split: option.splits)

lemma write_newlines_Posix: "write_newlines Posix s = s"
  by (induction s) (simp_all add: write_newlines_def linesep_def)

lemma platform_env_run: "platform env_run = Posix"
  by (simp add: env_run_def env0_def)

lemma json_span_whole:
  \<open>json_span (str ''{"first_name": "Ann"}'') = Some (str ''{"first_name": "Ann"}'')\<close>
  \<open>json_span (str ''{"first_name": "Bob"}'') = Some (str ''{"first_name": "Bob"}'')\<close>
  \<open>json_span (str ''{"first_name": "Cy"}'') = Some (str ''{"first_name": "Cy"}'')\<close>
  \<open>json_span (str ''{"first_name": "Dee"}'') = Some (str ''{"first_name": "Dee"}'')\<close>
  \<open>json_span (str ''{"first_name": "Eve"}'') = Some (str ''{"first_name": "Eve"}'')\<close>
  \<open>json_span (str ''{"first_name": "Odd"}'') = Some (str ''{"first_name": "Odd"}'')\<close>
  \<open>json_span (str ''{"error": "not a CV"}'') = Some (str ''{"error": "not a CV"}'')\<close>
  \<open>json_span (str ''{"score": 40}'') = Some (str ''{"score": 40}'')\<close>
  \<open>json_span (str ''{"score": 90}'') = Some (str ''{"score": 90}'')\<close>
  \<open>json_span (str ''{"score": 10}'') = Some (str ''{"score": 10}'')\<close>
  \<open>json_span (str ''{}'') = Some (str ''{}'')\<close>
  by (simp_all add: json_span_def find_char_def rfind_char_def str_def)

lemma strip_names:
  "strip (str ''Ann'') \<noteq> []" "strip (str ''Bob'') \<noteq> []" "strip (str ''Cy'') \<noteq> []"
  "strip (str ''Dee'') \<noteq> []" "strip (str ''Eve'') \<noteq> []" "strip (str ''Odd'') \<noteq> []"
  "strip (str ''Err'') \<noteq> []" "strip (str ''  '') = []"
  by (simp_all add: strip_def isspace_def str_def)

lemma extract_name_one_word:
  "extract_name env_run (str ''Ann'') = ([], [])" "extract_name env_run (str ''Bob'') = ([], [])"
  "extract_name env_run (str ''Cy'') = ([], [])" "extract_name env_run (str ''Dee'') = ([], [])"
  "extract_name env_run (str ''Eve'') = ([], [])" "extract_name env_run (str ''Odd'') = ([], [])"
  "extract_name env_run (str ''Err'') = ([], [])"
  by (simp_all add: extract_name_def splitlines_def split_def strip_def isspace_def
      is_linebreak_def alpha_env_run str_def)

lemma parse_cv_env_run:
  "parse_cv env_run (str ''Ann'') = [(str ''first_name'', JStr (str ''Ann'')), (str ''last_name'', JStr [])]"
  "parse_cv env_run (str ''Bob'') = [(str ''first_name'', JStr (str ''Bob'')), (str ''last_name'', JStr [])]"
  "parse_cv env_run (str ''Cy'') = [(str ''first_name'', JStr (str ''Cy'')), (str ''last_name'', JStr [])]"
  "parse_cv env_run (str ''Dee'') = [(str ''first_name'', JStr (str ''Dee'')), (str ''last_name'', JStr [])]"
  "parse_cv env_run (str ''Eve'') = [(str ''first_name'', JStr (str ''Eve'')), (str ''last_name'', JStr [])]"
  "parse_cv env_run (str ''Odd'') = [(str ''first_name'', JStr (str ''Odd'')), (str ''last_name'', JStr [])]"
  "parse_cv env_run (str ''Err'')
     = [(str ''error'', JStr (str ''not a CV'')), (str ''first_name'', JStr []),
        (str ''last_name'', JStr [])]"
  by (simp_all add: parse_cv_def extract_contacts_def extract_name_one_word fill_hints_def
      get_truthy_def env_run_services cv_answers_def parsed_answers_def json_span_whole
      str_eq_iff take_str)

lemma score_candidate_env_run:
  "score_candidate env_run (parse_cv env_run (str ''Ann'')) job = [(str ''score'', JNum 40)]"
  "score_candidate env_run (parse_cv env_run (str ''Bob'')) job = [(str ''score'', JNum 90)]"
  "score_candidate env_run (parse_cv env_run (str ''Cy'')) job = [(str ''score'', JNum 90)]"
  "score_candidate env_run (parse_cv env_run (str ''Dee'')) job = [(str ''score'', JNum 10)]"
  "score_candidate env_run (parse_cv env_run (str ''Odd'')) job = []"
  by (simp_all add: score_candidate_def parse_cv_env_run env_run_services dict_get_def
      score_answers_def parsed_answers_def json_span_whole str_eq_iff)

lemma scoring_fails_env_run:
  "scoring_fails env_run (parse_cv env_run (str ''Eve'')) job"
  "scoring_fails env_run (parse_cv env_run (str ''Err'')) job"
  by (simp_all add: scoring_fails_def parse_cv_env_run env_run_services dict_get_def
      score_answers_def str_eq_iff str_Nil_iff)

lemma recognized_env_run: "recognized env_run p"
  by (simp add: recognized_def env_run_services)

lemma process_one_env_run:
  assumes "map_of cv_files (str s) = Some t"
    and "13 \<notin> set t" and "encodable t"
    and "c (str (''cache//srv/app/'' @ s @ '':1700000000.0.txt'')) = None"
  shows "process_one env_run \<lparr>cache = c, cvs = fs, latest_results = l\<rparr> (str s) job =
     (if strip t = []
      then (Inr empty_text_result,
            \<lparr>cache = c(str (''cache//srv/app/'' @ s @ '':1700000000.0.txt'') \<mapsto> t),
             cvs = fs, latest_results = l\<rparr>)
      else (Inr (dict_merge (parse_cv env_run t) (score_candidate env_run (parse_cv env_run t) job)),
            \<lparr>cache = c(str (''cache//srv/app/'' @ s @ '':1700000000.0.txt'') \<mapsto> t),
             cvs = removeAll (str s) fs, latest_results = l\<rparr>))"
  using assms
  by (simp add: process_one_def extract_text_def cache_path_env_run extract_by_suffix_env_run
      env_run_services unlink_def Let_def cache_write_def write_newlines_Posix platform_env_run
      universal_newlines_id)

lemma cv_texts_plain:
  "13 \<notin> set (str ''Ann'')" "13 \<notin> set (str ''Bob'')" "13 \<notin> set (str ''Cy'')"
  "13 \<notin> set (str ''Dee'')" "13 \<notin> set (str ''Eve'')" "13 \<notin> set (str ''Odd'')"
  "13 \<notin> set (str ''Err'')" "13 \<notin> set (str ''  '')"
  "encodable (str ''Ann'')" "encodable (str ''Bob'')" "encodable (str ''Cy'')"
  "encodable (str ''Dee'')" "encodable (str ''Eve'')" "encodable (str ''Odd'')"
  "encodable (str ''Err'')" "encodable (str ''  '')"
  by (simp_all add: encodable_def str_def)

lemma cv_files_lookup:
  "map_of cv_files (str ''ann.txt'') = Some (str ''Ann'')"
  "map_of cv_files (str ''bob.txt'') = Some (str ''Bob'')"
  "map_of cv_files (str ''cy.txt'') = Some (str ''Cy'')"
  "map_of cv_files (str ''dee.txt'') = Some (str ''Dee'')"
  "map_of cv_files (str ''eve.txt'') = Some (str ''Eve'')"
  "map_of cv_files (str ''odd.txt'') = Some (str ''Odd'')"
  "map_of cv_files (str ''err.txt'') = Some (str ''Err'')"
  "map_of cv_files (str ''blank.txt'') = Some (str ''  '')"
  by (simp_all add: cv_files_def str_eq_iff)

lemma merged_env_run:
  "dict_merge (parse_cv env_run (str ''Ann''))
     (score_candidate env_run (parse_cv env_run (str ''Ann'')) job) = record_of ''Ann'' 40"
  "dict_merge (parse_cv env_run (str ''Bob''))
     (score_candidate env_run (parse_cv env_run (str ''Bob'')) job) = record_of ''Bob'' 90"
  "dict_merge (parse_cv env_run (str ''Cy''))
     (score_candidate env_run (parse_cv env_run (str ''Cy'')) job) = record_of ''Cy'' 90"
  "dict_merge (parse_cv env_run (str ''Dee''))
     (score_candidate env_run (parse_cv env_run (str ''Dee'')) job) = record_of ''Dee'' 10"
  "dict_merge (parse_cv env_run (str ''Odd''))
     (score_candidate env_run (parse_cv env_run (str ''Odd'')) job)
     = [(str ''first_name'', JStr (str ''Odd'')), (str ''last_name'', JStr [])]"
  "dict_merge (parse_cv env_run (str ''Eve''))
     (score_candidate env_run (parse_cv env_run (str ''Eve'')) job)
     = [(str ''first_name'', JStr (str ''Eve'')), (str ''last_name'', JStr []),
        (str ''score'', JNum 0), (str ''matching_points'', JList [])]"
  "dict_merge (parse_cv env_run (str ''Err''))
     (score_candidate env_run (parse_cv env_run (str ''Err'')) job)
     = [(str ''error'', JStr (str ''not a CV'')), (str ''first_name'', JStr []),
        (str ''last_name'', JStr []), (str ''score'', JNum 0), (str ''matching_points'', JList [])]"
  by (simp_all add: score_candidate_env_run score_candidate_fails scoring_fails_env_run)
     (simp_all add: parse_cv_env_run dict_merge_def score_fallback_def record_of_def str_eq_iff)

lemmas run_eval =
  index_def collected_def as_completed_def recognized_env_run world_of_def Let_def
  process_one_env_run cv_files_lookup cv_texts_plain strip_names merged_env_run
  str_eq_iff sort_by_score_def sort_reverse_def score_num_def score_of_def
  dict_get_def has_key_def record_of_def str_Nil_iff empty_text_result_def

lemmas tasks_eval =
  as_completed_def recognized_env_run world_of_def Let_def
  process_one_env_run cv_files_lookup cv_texts_plain strip_names merged_env_run str_eq_iff

lemma index_odd:
  "index env_run (world_of [str ''ann.txt'', str ''odd.txt'']) [] [0, 1]
     = (Inl KeyError,
        \<lparr>cache = [str ''cache//srv/app/ann.txt:1700000000.0.txt'' \<mapsto> str ''Ann'',
                  str ''cache//srv/app/odd.txt:1700000000.0.txt'' \<mapsto> str ''Odd''],
         cvs = [], latest_results = []\<rparr>)"
  by (simp add: run_eval)

lemma process_one_odd:
  "process_one env_run (world_of [str ''ann.txt'', str ''odd.txt'']) (str ''odd.txt'') job_fallback
     = (Inr [(str ''first_name'', JStr (str ''Odd'')), (str ''last_name'', JStr [])],
        \<lparr>cache = [str ''cache//srv/app/odd.txt:1700000000.0.txt'' \<mapsto> str ''Odd''],
         cvs = [str ''ann.txt''], latest_results = []\<rparr>)"
  by (simp add: tasks_eval)

lemma index_blank:
  "index env_run (world_of [str ''blank.txt'', str ''ann.txt'']) [] [0, 1]
     = (Inr [record_of ''Ann'' 40],
        \<lparr>cache = [str ''cache//srv/app/blank.txt:1700000000.0.txt'' \<mapsto> str ''  '',
                  str ''cache//srv/app/ann.txt:1700000000.0.txt'' \<mapsto> str ''Ann''],
         cvs = [str ''blank.txt''], latest_results = [record_of ''Ann'' 40]\<rparr>)"
  by (simp add: run_eval)

lemma process_one_blank:
  "process_one env_run (world_of [str ''blank.txt'', str ''ann.txt'']) (str ''blank.txt'')
       job_fallback
     = (Inr empty_text_result,
        \<lparr>cache = [str ''cache//srv/app/blank.txt:1700000000.0.txt'' \<mapsto> str ''  ''],
         cvs = [str ''blank.txt'', str ''ann.txt''], latest_results = []\<rparr>)"
  by (simp add: tasks_eval)



section \<open>The claims about a run\<close>

text \<open>
  Claim C1 at a failing input. \<open>blank.txt\<close> holds two spaces. Its extraction runs (the
  cache receives its text), \<open>process_one\<close> returns the \<open>Empty text\<close> error, the document is
  absent from the ranked sequence and from the rows of the export, and after the run the
  file is still in \<open>CV_FOLDER\<close>, while \<open>ann.txt\<close> was deleted.
\<close>

theorem empty_text_file_not_deleted:
  "fst (process_one env_run (world_of [str ''blank.txt'', str ''ann.txt'']) (str ''blank.txt'')
          job_fallback) = Inr empty_text_result
   \<and> fst (index env_run (world_of [str ''blank.txt'', str ''ann.txt'']) [] [0, 1])
       = Inr [record_of ''Ann'' 40]
   \<and> download_csv (snd (index env_run (world_of [str ''blank.txt'', str ''ann.txt'']) [] [0, 1]))
       = Rows [[JStr (str ''Ann''), JStr [], JStr [], JStr [], JNum 40, JStr []]]
   \<and> cache (snd (index env_run (world_of [str ''blank.txt'', str ''ann.txt'']) [] [0, 1]))
         (str ''cache//srv/app/blank.txt:1700000000.0.txt'') = Some (str ''  '')
   \<and> cvs (snd (index env_run (world_of [str ''blank.txt'', str ''ann.txt'']) [] [0, 1]))
       = [str ''blank.txt'']"
  using index_blank process_one_blank
  by (simp add: download_csv_def csv_row_def dict_get_def record_of_def str_eq_iff)




text \<open>
  Claim C4 at a failing input. For \<open>odd.txt\<close> the judge answers the scoring prompt with
  \<open>{}\<close>: \<open>score_candidate\<close> returns the empty object, the record of \<open>process_one\<close> has no
  \<open>score\<close>, and the sort raises \<open>KeyError\<close> outside any \<open>try\<close>: the handler returns no
  result, not even for \<open>ann.txt\<close>, and \<open>latest_results\<close> is not assigned.
\<close>

theorem missing_score_aborts_run:
  "fst (process_one env_run (world_of [str ''ann.txt'', str ''odd.txt'']) (str ''odd.txt'')
          job_fallback)
     = Inr [(str ''first_name'', JStr (str ''Odd'')), (str ''last_name'', JStr [])]
   \<and> fst (index env_run (world_of [str ''ann.txt'', str ''odd.txt'']) [] [0, 1]) = Inl KeyError
   \<and> latest_results (snd (index env_run (world_of [str ''ann.txt'', str ''odd.txt'']) [] [0, 1]))
       = []"
  using index_odd process_one_odd
  by simp




end
